theory Spec2Isabelle
  imports Main
begin

section \<open>The browser environment\<close>

text \<open>
  \<^verbatim>\<open>localStorage\<close> maps keys to strings; \<^verbatim>\<open>getItem\<close> answers \<^verbatim>\<open>null\<close> (here \<open>None\<close>)
  for a key that is not stored.
\<close>

type_synonym local_storage = "string \<rightharpoonup> string"

text \<open>
  The request configuration that axios hands through the interceptors
  (\<^verbatim>\<open>ExtendedAxiosRequestConfig\<close>). \<open>authorization\<close> is \<^verbatim>\<open>config.headers.Authorization\<close>,
  \<open>retry\<close> is the \<^verbatim>\<open>_retry\<close> flag, whose absence reads as false. \<open>body\<close> is the data posted
  with the request (\<^verbatim>\<open>config.data\<close>): nothing, or an object given by its fields.
\<close>

datatype request_data = NoData | ObjectData "(string \<times> string) list"

record config =
  url :: string
  "method" :: string
  body :: request_data
  authorization :: "string option"
  retry :: bool

text \<open>The user record of types/index.ts, with the fields the client looks at.\<close>

datatype role = RoleUser | RoleModerator | RoleAdmin

record User =
  user_id :: nat
  username :: string
  email :: string
  role :: role
  is_active :: bool

text \<open>
  A response: its status, the fields of \<^verbatim>\<open>response.data\<close> that the client reads
  (\<^verbatim>\<open>access_token\<close>, \<^verbatim>\<open>refresh_token\<close>, \<^verbatim>\<open>user\<close> and \<^verbatim>\<open>message\<close>; \<open>None\<close> when the object has no
  such field, JavaScript's \<^verbatim>\<open>undefined\<close>) and the rest of the payload, which the client
  passes through untouched. \<^verbatim>\<open>response.data\<close> is taken to be an object, as the declared
  response types say.
\<close>

record response =
  status :: nat
  data_access_token :: "string option"
  data_refresh_token :: "string option"
  data_user :: "User option"
  data_message :: "string option"
  data :: string

datatype error = AxiosError (error_config: config) (error_response: "response option")

datatype outcome = Resolved response | Rejected error

text \<open>
  What the client does to the outside, in order: a request dispatched by the \<^verbatim>\<open>api\<close> instance, a
  request posted with the bare \<^verbatim>\<open>axios\<close> (the refresh call), a toast (title, description and
  variant, \<open>None\<close> when the call names no variant) and an assignment to
  \<^verbatim>\<open>window.location.href\<close>.
\<close>

datatype event =
    Sent config
  | AxiosPost config
  | Toast string string "string option"
  | Redirect string

text \<open>
  The world a call runs in: the storage, the answers of the network to the successive requests
  (\<open>None\<close> is a request that gets no response; a script that has run out answers nothing
  either) and the log of events so far.
\<close>

record world =
  storage :: local_storage
  network :: "response option list"
  log :: "event list"

definition getItem :: "string \<Rightarrow> world \<Rightarrow> string option" where
  "getItem k w = storage w k"

definition setItem :: "string \<Rightarrow> string \<Rightarrow> world \<Rightarrow> world" where
  "setItem k v w = w\<lparr>storage := (storage w)(k \<mapsto> v)\<rparr>"

definition removeItem :: "string \<Rightarrow> world \<Rightarrow> world" where
  "removeItem k w = w\<lparr>storage := (storage w)(k := None)\<rparr>"

definition emit :: "event \<Rightarrow> world \<Rightarrow> world" where
  "emit e w = w\<lparr>log := log w @ [e]\<rparr>"

definition receive :: "world \<Rightarrow> response option \<times> world" where
  "receive w =
     (case network w of
        [] \<Rightarrow> (None, w)
      | r # rs \<Rightarrow> (r, w\<lparr>network := rs\<rparr>))"

text \<open>JavaScript's truthiness of \<^verbatim>\<open>string | null\<close>: \<^verbatim>\<open>null\<close> and the empty string are falsy.\<close>

fun truthy :: "string option \<Rightarrow> bool" where
  "truthy None = False"
| "truthy (Some s) = (s \<noteq> [])"

text \<open>String conversion in a template literal and in \<^verbatim>\<open>setItem\<close>.\<close>

fun js_string :: "string option \<Rightarrow> string" where
  "js_string None = ''undefined''"
| "js_string (Some s) = s"

section \<open>The HTTP client (services/api.ts)\<close>

definition BASE_URL :: string where
  "BASE_URL = ''http://localhost:5000/api/v1''"

definition bearer :: "string \<Rightarrow> string" where
  "bearer token = ''Bearer '' @ token"

text \<open>axios' default \<^verbatim>\<open>validateStatus\<close>: a promise resolves on 2xx and rejects otherwise.\<close>

definition validateStatus :: "nat \<Rightarrow> bool" where
  "validateStatus s = (200 \<le> s \<and> s < 300)"

definition settle :: "config \<Rightarrow> response option \<Rightarrow> error + response" where
  "settle cfg r =
     (case r of
        None \<Rightarrow> Inl (AxiosError cfg None)
      | Some resp \<Rightarrow>
          if validateStatus (status resp) then Inr resp
          else Inl (AxiosError cfg (Some resp)))"

text \<open>The request interceptor.\<close>

definition request_interceptor :: "config \<Rightarrow> world \<Rightarrow> config" where
  "request_interceptor cfg w =
     (let token = getItem ''access_token'' w in
      if truthy token then cfg\<lparr>authorization := Some (bearer (js_string token))\<rparr>
      else cfg)"

text \<open>\<^verbatim>\<open>error.response?.status\<close>\<close>

definition error_status :: "error \<Rightarrow> nat option" where
  "error_status err = map_option status (error_response err)"

text \<open>
  The tail of the response error handler: a toast on 403, another on a status of 500 or more
  (\<^verbatim>\<open>undefined >= 500\<close> is false), and the error is rejected.
\<close>

definition handle_error_types :: "error \<Rightarrow> world \<Rightarrow> outcome \<times> world" where
  "handle_error_types err w =
     (if error_status err = Some 403 then
        (Rejected err,
         emit (Toast ''Access Denied'' ''You don't have permission to perform this action.''
                 (Some ''destructive'')) w)
      else if (case error_status err of None \<Rightarrow> False | Some s \<Rightarrow> s \<ge> 500) then
        (Rejected err,
         emit (Toast ''Server Error'' ''Something went wrong on our end. Please try again later.''
                 (Some ''destructive'')) w)
      else (Rejected err, w))"

definition refresh_config :: "string \<Rightarrow> config" where
  "refresh_config refreshToken =
     \<lparr>url = BASE_URL @ ''/auth/refresh'', method = ''post'', body = ObjectData [],
      authorization = Some (bearer refreshToken), retry = False\<rparr>"

text \<open>
  \<open>api cfg\<close> is a call of the axios instance: the request interceptor, the dispatch, and the
  response interceptors (the success handler is the identity). \<open>response_rejected\<close> is the
  error handler; its replay calls the instance again with the same, mutated request object.
  A rejection of the replay is not caught by the handler's \<^verbatim>\<open>catch\<close>, since the promise is
  returned without \<^verbatim>\<open>await\<close>.
\<close>

function api :: "config \<Rightarrow> world \<Rightarrow> outcome \<times> world"
  and response_rejected :: "error \<Rightarrow> world \<Rightarrow> outcome \<times> world"
where
  "api cfg w =
     (let cfg' = request_interceptor cfg w;
          (r, w1) = receive (emit (Sent cfg') w)
      in case settle cfg' r of
           Inr resp \<Rightarrow> (Resolved resp, w1)
         | Inl err \<Rightarrow> response_rejected err w1)"
| "response_rejected err w =
     (if error_status err = Some 401 \<and> \<not> retry (error_config err) then
        let originalRequest = (error_config err)\<lparr>retry := True\<rparr>;
            err' = AxiosError originalRequest (error_response err);
            refreshToken = getItem ''refresh_token'' w
        in if truthy refreshToken then
             let rcfg = refresh_config (js_string refreshToken);
                 (r, w1) = receive (emit (AxiosPost rcfg) w)
             in case settle rcfg r of
                  Inr resp \<Rightarrow>
                    let access_token = js_string (data_access_token resp);
                        w2 = setItem ''access_token'' access_token w1
                    in api (originalRequest\<lparr>authorization := Some (bearer access_token)\<rparr>) w2
                | Inl refreshError \<Rightarrow>
                    (Rejected refreshError,
                     emit (Redirect ''/login'')
                       (removeItem ''refresh_token'' (removeItem ''access_token'' w1)))
           else handle_error_types err' w
      else handle_error_types err w)"
  by pat_completeness auto
termination
proof (relation "measure (\<lambda>x. case x of
          Inl (cfg, w) \<Rightarrow> (if retry cfg then 1 else 3)
        | Inr (err, w) \<Rightarrow> (if retry (error_config err) then 0 else 2))")
  show "wf (measure (\<lambda>x. case x of
          Inl (cfg, w) \<Rightarrow> (if retry cfg then 1 else 3)
        | Inr (err, w) \<Rightarrow> (if retry (error_config err) then 0 else (2::nat))))"
    by simp
next
  fix cfg cfg' :: config and w w1 :: world and r :: "response option" and err :: error
  assume "cfg' = request_interceptor cfg w" "settle cfg' r = Inl err"
  then have "retry (error_config err) = retry cfg"
    by (auto simp: settle_def request_interceptor_def Let_def split: option.splits if_splits)
  then show "(Inr (err, w1), Inl (cfg, w)) \<in> measure (\<lambda>x. case x of
          Inl (cfg, w) \<Rightarrow> (if retry cfg then 1 else 3)
        | Inr (err, w) \<Rightarrow> (if retry (error_config err) then 0 else 2))"
    by simp
next
  fix err :: error and w w2 :: world and originalRequest :: config and access_token :: string
  assume "error_status err = Some 401 \<and> \<not> retry (error_config err)"
    and "originalRequest = (error_config err)\<lparr>retry := True\<rparr>"
  then show "(Inl (originalRequest\<lparr>authorization := Some (bearer access_token)\<rparr>, w2), Inr (err, w))
      \<in> measure (\<lambda>x. case x of
          Inl (cfg, w) \<Rightarrow> (if retry cfg then 1 else 3)
        | Inr (err, w) \<Rightarrow> (if retry (error_config err) then 0 else 2))"
    by simp
qed

declare api.simps [simp del] response_rejected.simps [simp del]

section \<open>The session context (contexts/AuthContext.tsx)\<close>

text \<open>The provider's two pieces of React state.\<close>

record auth =
  user :: "User option"
  loading :: bool

definition isAuthenticated :: "auth \<Rightarrow> bool" where
  "isAuthenticated a = (user a \<noteq> None)"

text \<open>\<^verbatim>\<open>user?.role\<close> is \<^verbatim>\<open>undefined\<close> without a user, and equal to no role.\<close>

definition isModerator :: "auth \<Rightarrow> bool" where
  "isModerator a =
     (map_option role (user a) = Some RoleModerator \<or> map_option role (user a) = Some RoleAdmin)"

definition isAdmin :: "auth \<Rightarrow> bool" where
  "isAdmin a = (map_option role (user a) = Some RoleAdmin)"

definition logout :: "auth \<Rightarrow> world \<Rightarrow> auth \<times> world" where
  "logout a w =
     (let w1 = removeItem ''access_token'' w;
          w2 = removeItem ''refresh_token'' w1;
          a' = a\<lparr>user := None\<rparr>
      in (a', emit (Toast ''Logged out'' ''You have been logged out successfully.'' None) w2))"

text \<open>
  The calls of \<^verbatim>\<open>authApi\<close> that the provider makes, each one request through the instance:
  \<^verbatim>\<open>getMe\<close> answers \<^verbatim>\<open>response.data.user\<close>, \<^verbatim>\<open>login\<close> and \<^verbatim>\<open>register\<close> answer \<^verbatim>\<open>response.data\<close>,
  whose fields the response carries.
\<close>

definition authApi_getMe :: "world \<Rightarrow> (error + User option) \<times> world" where
  "authApi_getMe w =
     (case api \<lparr>url = ''/auth/me'', method = ''get'', body = NoData,
                authorization = None, retry = False\<rparr> w of
        (Resolved resp, w') \<Rightarrow> (Inr (data_user resp), w')
      | (Rejected err, w') \<Rightarrow> (Inl err, w'))"

definition authApi_login :: "string \<Rightarrow> string \<Rightarrow> world \<Rightarrow> (error + response) \<times> world" where
  "authApi_login email' password w =
     (case api \<lparr>url = ''/auth/login'', method = ''post'',
                body = ObjectData [(''email'', email'), (''password'', password)],
                authorization = None, retry = False\<rparr> w of
        (Resolved resp, w') \<Rightarrow> (Inr resp, w')
      | (Rejected err, w') \<Rightarrow> (Inl err, w'))"

definition authApi_register ::
    "string \<Rightarrow> string \<Rightarrow> string \<Rightarrow> world \<Rightarrow> (error + response) \<times> world" where
  "authApi_register username' email' password w =
     (case api \<lparr>url = ''/auth/register'', method = ''post'',
                body = ObjectData [(''username'', username'), (''email'', email'),
                                   (''password'', password)],
                authorization = None, retry = False\<rparr> w of
        (Resolved resp, w') \<Rightarrow> (Inr resp, w')
      | (Rejected err, w') \<Rightarrow> (Inl err, w'))"

text \<open>
  \<^verbatim>\<open>checkAuth\<close>, run once when the provider mounts: with an access token stored it asks who
  the user is; any failure of that call clears both tokens.
\<close>

definition checkAuth :: "auth \<Rightarrow> world \<Rightarrow> auth \<times> world" where
  "checkAuth a w =
     (let token = getItem ''access_token'' w in
      if truthy token then
        (case authApi_getMe w of
           (Inr userData, w1) \<Rightarrow> (a\<lparr>user := userData, loading := False\<rparr>, w1)
         | (Inl err, w1) \<Rightarrow>
             (a\<lparr>loading := False\<rparr>,
              removeItem ''refresh_token'' (removeItem ''access_token'' w1)))
      else (a\<lparr>loading := False\<rparr>, w))"

text \<open>\<^verbatim>\<open>error.response?.data?.message\<close>\<close>

definition error_message :: "error \<Rightarrow> string option" where
  "error_message err =
     (case error_response err of None \<Rightarrow> None | Some r \<Rightarrow> data_message r)"

text \<open>
  \<^verbatim>\<open>login\<close> and \<^verbatim>\<open>register\<close> store the token pair of the answer and set the user; on failure
  they show the server's message, or a default for a falsy one, and throw the error again
  (the first component, \<open>None\<close> when nothing is thrown).
\<close>

definition login :: "string \<Rightarrow> string \<Rightarrow> auth \<Rightarrow> world \<Rightarrow> error option \<times> auth \<times> world" where
  "login email' password a w =
     (case authApi_login email' password w of
        (Inr response, w1) \<Rightarrow>
          let w2 = setItem ''access_token'' (js_string (data_access_token response)) w1;
              w3 = setItem ''refresh_token'' (js_string (data_refresh_token response)) w2
          in (None, a\<lparr>user := data_user response\<rparr>,
              emit (Toast ''Welcome back!'' ''You have been logged in successfully.'' None) w3)
      | (Inl err, w1) \<Rightarrow>
          let message = (if truthy (error_message err) then js_string (error_message err)
                         else ''Login failed'')
          in (Some err, a, emit (Toast ''Login Failed'' message (Some ''destructive'')) w1))"

definition register ::
    "string \<Rightarrow> string \<Rightarrow> string \<Rightarrow> auth \<Rightarrow> world \<Rightarrow> error option \<times> auth \<times> world" where
  "register username' email' password a w =
     (case authApi_register username' email' password w of
        (Inr response, w1) \<Rightarrow>
          let w2 = setItem ''access_token'' (js_string (data_access_token response)) w1;
              w3 = setItem ''refresh_token'' (js_string (data_refresh_token response)) w2
          in (None, a\<lparr>user := data_user response\<rparr>,
              emit (Toast ''Welcome to Otaku Forum!''
                      ''Your account has been created successfully.'' None) w3)
      | (Inl err, w1) \<Rightarrow>
          let message = (if truthy (error_message err) then js_string (error_message err)
                         else ''Registration failed'')
          in (Some err, a,
              emit (Toast ''Registration Failed'' message (Some ''destructive'')) w1))"

section \<open>The route guard (components/PrivateRoute.tsx)\<close>

record PrivateRouteProps =
  requireModerator :: bool
  requireAdmin :: bool

text \<open>
  What the guard renders: the loading placeholder, a \<^verbatim>\<open>Navigate\<close> element (target, the
  location kept under \<^verbatim>\<open>state.from\<close> if any, the \<^verbatim>\<open>replace\<close> flag) or its children.
\<close>

datatype element =
    LoadingView
  | Navigate string "string option" bool
  | Children

definition PrivateRoute :: "PrivateRouteProps \<Rightarrow> auth \<Rightarrow> string \<Rightarrow> element" where
  "PrivateRoute props a location =
     (if loading a then LoadingView
      else if \<not> isAuthenticated a then Navigate ''/login'' (Some location) True
      else if requireAdmin props \<and> \<not> isAdmin a then Navigate ''/'' None True
      else if requireModerator props \<and> \<not> isModerator a then Navigate ''/'' None True
      else Children)"

section \<open>The topic page (pages/TopicDetail.tsx)\<close>

record Topic =
  topic_id :: nat
  title :: string
  replies_count :: nat
  is_pinned :: bool
  is_locked :: bool

text \<open>
  The component's state; a reply is kept as the payload the server answered. \<open>page_loading\<close>
  is the component's own \<^verbatim>\<open>loading\<close> flag (the session has one of that name too).
\<close>

record TopicDetail =
  topic :: "Topic option"
  replies :: "string list"
  page_loading :: bool
  replyContent :: string
  submitting :: bool

text \<open>
  \<^verbatim>\<open>String.prototype.trim\<close> on strings of code units below 256: the white space and line
  terminators there are tab, line feed, vertical tab, form feed, carriage return, space and
  the no-break space.
\<close>

definition is_white_space :: "char \<Rightarrow> bool" where
  "is_white_space c = ((of_char c :: nat) \<in> {9, 10, 11, 12, 13, 32, 160})"

definition trim :: "string \<Rightarrow> string" where
  "trim s = rev (dropWhile is_white_space (rev (dropWhile is_white_space s)))"

text \<open>Decimal digits of a number, as a template literal prints it.\<close>

fun string_of_nat :: "nat \<Rightarrow> string" where
  "string_of_nat n =
     (if n < 10 then [''0123456789'' ! n]
      else string_of_nat (n div 10) @ [''0123456789'' ! (n mod 10)])"

declare string_of_nat.simps [simp del]

text \<open>
  \<^verbatim>\<open>forumApi.createReply\<close>: one post of the object \<^verbatim>\<open>{ content }\<close> through the instance; a
  rejection propagates.
\<close>

definition createReply :: "nat \<Rightarrow> string \<Rightarrow> world \<Rightarrow> (error + string) \<times> world" where
  "createReply topicId content w =
     (case api \<lparr>url = ''/forum/topics/'' @ string_of_nat topicId @ ''/reply'', method = ''post'',
                body = ObjectData [(''content'', content)], authorization = None, retry = False\<rparr> w of
        (Resolved resp, w') \<Rightarrow> (Inr (data resp), w')
      | (Rejected err, w') \<Rightarrow> (Inl err, w'))"

text \<open>
  The submit handler. \<open>submitting\<close> is raised for the duration of the call and lowered in the
  \<^verbatim>\<open>finally\<close> block; the state returned is the one after the handler has finished.
\<close>

definition handleSubmitReply :: "auth \<Rightarrow> TopicDetail \<Rightarrow> world \<Rightarrow> TopicDetail \<times> world" where
  "handleSubmitReply a s w =
     (if \<not> isAuthenticated a \<or> topic s = None then
        (s, emit (Toast ''Login Required'' ''Please log in to reply.'' (Some ''destructive'')) w)
      else if trim (replyContent s) = [] then (s, w)
      else
        let t = the (topic s) in
        if is_locked t \<and> \<not> isModerator a then
          (s, emit (Toast ''Topic Locked''
                      ''This topic is locked and no longer accepts replies.''
                      (Some ''destructive'')) w)
        else
          (case createReply (topic_id t) (replyContent s) w of
             (Inr newReply, w1) \<Rightarrow>
               (s\<lparr>replies := replies s @ [newReply], replyContent := [],
                  topic := Some (t\<lparr>replies_count := replies_count t + 1\<rparr>),
                  submitting := False\<rparr>,
                emit (Toast ''Success'' ''Reply posted successfully.'' None) w1)
           | (Inl err, w1) \<Rightarrow>
               (s\<lparr>submitting := False\<rparr>,
                emit (Toast ''Error'' ''Failed to post reply. Please try again.''
                        (Some ''destructive'')) w1)))"

text \<open>Which card the page renders under the replies heading.\<close>

datatype reply_section = ReplyForm | LockedNotice | LoginPrompt

definition reply_section :: "auth \<Rightarrow> Topic \<Rightarrow> reply_section" where
  "reply_section a t =
     (if isAuthenticated a \<and> \<not> is_locked t then ReplyForm
      else if is_locked t then LockedNotice
      else LoginPrompt)"

text \<open>What the component renders: the skeleton while loading, the not-found page, or the topic.\<close>

datatype page = LoadingSkeleton | TopicNotFound | TopicShown reply_section

definition TopicDetail_render :: "auth \<Rightarrow> TopicDetail \<Rightarrow> page" where
  "TopicDetail_render a s =
     (if page_loading s then LoadingSkeleton
      else case topic s of
             None \<Rightarrow> TopicNotFound
           | Some t \<Rightarrow> TopicShown (reply_section a t))"

text \<open>
  Submitting a reply from the page. The handler's only caller is the \<^verbatim>\<open>onSubmit\<close> of the reply
  form, and the form is submitted by its button, which is disabled while
  \<^verbatim>\<open>submitting || !replyContent.trim()\<close>. \<open>None\<close>: the page offers nothing to submit.
\<close>

definition submit_reply_form :: "auth \<Rightarrow> TopicDetail \<Rightarrow> world \<Rightarrow> (TopicDetail \<times> world) option" where
  "submit_reply_form a s w =
     (if TopicDetail_render a s = TopicShown ReplyForm
         \<and> \<not> (submitting s \<or> trim (replyContent s) = [])
      then Some (handleSubmitReply a s w)
      else None)"

section \<open>Reading the log\<close>

text \<open>
  The requests dispatched by the instance, the requests posted with the bare \<^verbatim>\<open>axios\<close> and the
  targets of the redirects, in the order of the log.
\<close>

fun sent :: "event list \<Rightarrow> config list" where
  "sent [] = []"
| "sent (Sent c # es) = c # sent es"
| "sent (e # es) = sent es"

fun posted :: "event list \<Rightarrow> config list" where
  "posted [] = []"
| "posted (AxiosPost c # es) = c # posted es"
| "posted (e # es) = posted es"

fun redirects :: "event list \<Rightarrow> string list" where
  "redirects [] = []"
| "redirects (Redirect l # es) = l # redirects es"
| "redirects (e # es) = redirects es"

section \<open>Session flags, route guard and logout\<close>

text \<open>
  C5. For every session state: with a user set, \<open>isModerator\<close> holds exactly for the roles
  moderator and admin (so not for the role user) and \<open>isAdmin\<close> exactly for the role admin;
  with no user set both are false; \<open>isAdmin\<close> implies \<open>isModerator\<close>, and \<open>isModerator\<close>
  implies \<open>isAuthenticated\<close>.
\<close>

theorem role_flags:
  "(\<forall>u. user a = Some u \<longrightarrow>
       isModerator a = (role u = RoleModerator \<or> role u = RoleAdmin)
     \<and> (role u = RoleUser \<longrightarrow> \<not> isModerator a)
     \<and> isAdmin a = (role u = RoleAdmin))
   \<and> (user a = None \<longrightarrow> \<not> isModerator a \<and> \<not> isAdmin a)
   \<and> (isAdmin a \<longrightarrow> isModerator a)
   \<and> (isModerator a \<longrightarrow> isAuthenticated a)"
  by (cases "user a") (auto simp: isModerator_def isAdmin_def isAuthenticated_def)

theorem role_flags_witness:
  "isAdmin \<lparr>user = Some \<lparr>user_id = 1, username = ''rei'', email = ''rei@nerv.jp'',
                         role = RoleAdmin, is_active = True\<rparr>, loading = False\<rparr>
   \<and> isModerator \<lparr>user = Some \<lparr>user_id = 1, username = ''rei'', email = ''rei@nerv.jp'',
                         role = RoleAdmin, is_active = True\<rparr>, loading = False\<rparr>
   \<and> isAuthenticated \<lparr>user = Some \<lparr>user_id = 1, username = ''rei'', email = ''rei@nerv.jp'',
                         role = RoleAdmin, is_active = True\<rparr>, loading = False\<rparr>
   \<and> \<not> isModerator \<lparr>user = Some \<lparr>user_id = 2, username = ''shinji'', email = ''s@nerv.jp'',
                         role = RoleUser, is_active = True\<rparr>, loading = False\<rparr>
   \<and> \<not> isModerator \<lparr>user = None, loading = False\<rparr>
   \<and> \<not> isAdmin \<lparr>user = None, loading = False\<rparr>"
  using role_flags [of "\<lparr>user = Some \<lparr>user_id = 1, username = ''rei'', email = ''rei@nerv.jp'',
                         role = RoleAdmin, is_active = True\<rparr>, loading = False\<rparr>"]
    role_flags [of "\<lparr>user = Some \<lparr>user_id = 2, username = ''shinji'', email = ''s@nerv.jp'',
                         role = RoleUser, is_active = True\<rparr>, loading = False\<rparr>"]
    role_flags [of "\<lparr>user = None, loading = False\<rparr>"]
  by simp

text \<open>
  C7. Once \<open>loading\<close> is false, the guard sends an unauthenticated user to \<^verbatim>\<open>/login\<close>, keeping the
  requested location in the navigation state; it sends an authenticated user who fails the
  \<open>requireAdmin\<close> or the \<open>requireModerator\<close> check to \<^verbatim>\<open>/\<close>; otherwise it renders its
  children.
\<close>

theorem PrivateRoute_policy:
  assumes "\<not> loading a"
  shows "(\<not> isAuthenticated a \<longrightarrow>
            PrivateRoute props a location = Navigate ''/login'' (Some location) True)
     \<and> (isAuthenticated a \<and>
          ((requireAdmin props \<and> \<not> isAdmin a) \<or> (requireModerator props \<and> \<not> isModerator a)) \<longrightarrow>
            PrivateRoute props a location = Navigate ''/'' None True)
     \<and> (isAuthenticated a \<and> (requireAdmin props \<longrightarrow> isAdmin a)
          \<and> (requireModerator props \<longrightarrow> isModerator a) \<longrightarrow>
            PrivateRoute props a location = Children)"
  using assms by (auto simp: PrivateRoute_def)

theorem PrivateRoute_policy_witness:
  "PrivateRoute \<lparr>requireModerator = False, requireAdmin = True\<rparr>
     \<lparr>user = None, loading = False\<rparr> ''/profile/edit''
     = Navigate ''/login'' (Some ''/profile/edit'') True
   \<and> PrivateRoute \<lparr>requireModerator = False, requireAdmin = True\<rparr>
     \<lparr>user = Some \<lparr>user_id = 2, username = ''shinji'', email = ''s@nerv.jp'',
                    role = RoleModerator, is_active = True\<rparr>, loading = False\<rparr> ''/admin''
     = Navigate ''/'' None True
   \<and> PrivateRoute \<lparr>requireModerator = True, requireAdmin = False\<rparr>
     \<lparr>user = Some \<lparr>user_id = 2, username = ''shinji'', email = ''s@nerv.jp'',
                    role = RoleModerator, is_active = True\<rparr>, loading = False\<rparr> ''/moderate''
     = Children"
  using PrivateRoute_policy [of "\<lparr>user = None, loading = False\<rparr>"
      "\<lparr>requireModerator = False, requireAdmin = True\<rparr>" "''/profile/edit''"]
    PrivateRoute_policy [of "\<lparr>user = Some \<lparr>user_id = 2, username = ''shinji'', email = ''s@nerv.jp'',
                    role = RoleModerator, is_active = True\<rparr>, loading = False\<rparr>"
      "\<lparr>requireModerator = False, requireAdmin = True\<rparr>" "''/admin''"]
    PrivateRoute_policy [of "\<lparr>user = Some \<lparr>user_id = 2, username = ''shinji'', email = ''s@nerv.jp'',
                    role = RoleModerator, is_active = True\<rparr>, loading = False\<rparr>"
      "\<lparr>requireModerator = True, requireAdmin = False\<rparr>" "''/moderate''"]
  by (simp add: isAuthenticated_def isAdmin_def isModerator_def)

text \<open>
  C8. \<open>logout\<close> removes both tokens from the storage and sets the user to null; it is a plain
  state change that touches the network in no way (the script of answers is as before and the
  only event is the toast); afterwards the three flags are false.
\<close>

theorem logout_clears_session:
  "storage (snd (logout a w)) ''access_token'' = None
   \<and> storage (snd (logout a w)) ''refresh_token'' = None
   \<and> user (fst (logout a w)) = None
   \<and> network (snd (logout a w)) = network w
   \<and> log (snd (logout a w)) =
       log w @ [Toast ''Logged out'' ''You have been logged out successfully.'' None]
   \<and> \<not> isAuthenticated (fst (logout a w))
   \<and> \<not> isModerator (fst (logout a w))
   \<and> \<not> isAdmin (fst (logout a w))"
  by (simp add: logout_def Let_def removeItem_def emit_def isAuthenticated_def
      isModerator_def isAdmin_def)

theorem logout_clears_session_witness:
  "logout
     \<lparr>user = Some \<lparr>user_id = 1, username = ''rei'', email = ''rei@nerv.jp'',
                    role = RoleAdmin, is_active = True\<rparr>, loading = False\<rparr>
     \<lparr>storage = [''access_token'' \<mapsto> ''old'', ''refresh_token'' \<mapsto> ''rt''],
      network = [], log = []\<rparr>
   = (\<lparr>user = None, loading = False\<rparr>,
      \<lparr>storage = [''access_token'' \<mapsto> ''old'', ''refresh_token'' \<mapsto> ''rt'']
                  (''access_token'' := None, ''refresh_token'' := None),
       network = [],
       log = [Toast ''Logged out'' ''You have been logged out successfully.'' None]\<rparr>)
   \<and> storage (snd (logout
     \<lparr>user = Some \<lparr>user_id = 1, username = ''rei'', email = ''rei@nerv.jp'',
                    role = RoleAdmin, is_active = True\<rparr>, loading = False\<rparr>
     \<lparr>storage = [''access_token'' \<mapsto> ''old'', ''refresh_token'' \<mapsto> ''rt''],
      network = [], log = []\<rparr>)) ''refresh_token'' = None"
  using logout_clears_session [of
     "\<lparr>user = Some \<lparr>user_id = 1, username = ''rei'', email = ''rei@nerv.jp'',
                    role = RoleAdmin, is_active = True\<rparr>, loading = False\<rparr>"
     "\<lparr>storage = [''access_token'' \<mapsto> ''old'', ''refresh_token'' \<mapsto> ''rt''],
      network = [], log = []\<rparr>"]
  by (simp add: logout_def Let_def removeItem_def emit_def)

section \<open>The HTTP client and the topic page\<close>

subsection \<open>Log and error helpers\<close>

lemma sent_append [simp]: "sent (xs @ ys) = sent xs @ sent ys"
  by (induction xs rule: sent.induct) simp_all

lemma posted_append [simp]: "posted (xs @ ys) = posted xs @ posted ys"
  by (induction xs rule: posted.induct) simp_all

lemma redirects_append [simp]: "redirects (xs @ ys) = redirects xs @ redirects ys"
  by (induction xs rule: redirects.induct) simp_all

lemma settle_Inl_config: "settle cfg r = Inl err \<Longrightarrow> error_config err = cfg \<and> error_response err = r"
  by (auto simp: settle_def split: option.splits if_splits)

lemma settle_Inr: "settle cfg r = Inr resp \<Longrightarrow> r = Some resp \<and> validateStatus (status resp)"
  by (auto simp: settle_def split: option.splits if_splits)

lemma request_interceptor_retry [simp]: "retry (request_interceptor cfg w) = retry cfg"
  by (simp add: request_interceptor_def Let_def)

lemma handle_error_types_fst [simp]: "fst (handle_error_types err w) = Rejected err"
  by (simp add: handle_error_types_def)

lemma handle_error_types_storage [simp]: "storage (snd (handle_error_types err w)) = storage w"
  by (simp add: handle_error_types_def emit_def)

lemma handle_error_types_network [simp]: "network (snd (handle_error_types err w)) = network w"
  by (simp add: handle_error_types_def emit_def)

lemma handle_error_types_log:
  "sent (log (snd (handle_error_types err w))) = sent (log w)
   \<and> posted (log (snd (handle_error_types err w))) = posted (log w)
   \<and> redirects (log (snd (handle_error_types err w))) = redirects (log w)"
  by (simp add: handle_error_types_def emit_def)

lemma handle_error_types_log_prefix:
  "\<exists>evs. log (snd (handle_error_types err w)) = log w @ evs"
  by (simp add: handle_error_types_def emit_def)

lemma receive_effects [simp]:
  "storage (snd (receive w)) = storage w"
  "log (snd (receive w)) = log w"
  "length (network (snd (receive w))) \<le> length (network w)"
  by (simp_all add: receive_def split: list.splits)

lemma world_reorder:
  "w\<lparr>log := l, network := n, storage := s\<rparr> = w\<lparr>storage := s, network := n, log := l\<rparr>"
  by simp

lemma settle_unauthorized:
  "status r = 401 \<Longrightarrow> settle cfg (Some r) = Inl (AxiosError cfg (Some r))"
  by (simp add: settle_def validateStatus_def)

subsection \<open>One call of the instance, step by step\<close>

lemma request_interceptor_replay:
  "storage w ''access_token'' = Some t \<Longrightarrow>
   request_interceptor (cfg\<lparr>authorization := Some (bearer t)\<rparr>) w = cfg\<lparr>authorization := Some (bearer t)\<rparr>"
  by (simp add: request_interceptor_def getItem_def Let_def)

lemma response_rejected_retried:
  "retry (error_config err) \<Longrightarrow> response_rejected err w = handle_error_types err w"
  by (subst response_rejected.simps) simp

lemma response_rejected_plain:
  "\<not> (error_status err = Some 401 \<and> \<not> retry (error_config err)) \<Longrightarrow>
   response_rejected err w = handle_error_types err w"
  by (subst response_rejected.simps) (rule if_not_P)

lemma response_rejected_no_refresh_token:
  assumes "error_status err = Some 401" "\<not> retry (error_config err)"
    and "\<not> truthy (getItem ''refresh_token'' w)"
  shows "response_rejected err w =
     (Rejected (AxiosError ((error_config err)\<lparr>retry := True\<rparr>) (error_response err)), w)"
proof -
  have "handle_error_types (AxiosError c (error_response err)) w =
      (Rejected (AxiosError c (error_response err)), w)" for c
    using assms(1) by (auto simp: handle_error_types_def error_status_def)
  with assms show ?thesis
    by (subst response_rejected.simps) (simp add: Let_def)
qed

lemma response_rejected_refresh_failed:
  assumes "error_status err = Some 401" "\<not> retry (error_config err)"
    and "getItem ''refresh_token'' w = Some rt" "rt \<noteq> []"
    and "settle (refresh_config rt) (fst (receive (emit (AxiosPost (refresh_config rt)) w))) = Inl e"
  shows "response_rejected err w =
     (Rejected e,
      emit (Redirect ''/login'')
        (removeItem ''refresh_token'' (removeItem ''access_token''
           (snd (receive (emit (AxiosPost (refresh_config rt)) w))))))"
  using assms
  by (subst response_rejected.simps) (simp add: Let_def case_prod_beta)

lemma response_rejected_refresh_ok:
  assumes "error_status err = Some 401" "\<not> retry (error_config err)"
    and "getItem ''refresh_token'' w = Some rt" "rt \<noteq> []"
    and "settle (refresh_config rt) (fst (receive (emit (AxiosPost (refresh_config rt)) w))) = Inr resp"
  shows "response_rejected err w =
     api ((error_config err)\<lparr>retry := True,
            authorization := Some (bearer (js_string (data_access_token resp)))\<rparr>)
       (setItem ''access_token'' (js_string (data_access_token resp))
          (snd (receive (emit (AxiosPost (refresh_config rt)) w))))"
  using assms
  by (subst response_rejected.simps) (simp add: Let_def case_prod_beta)

lemma api_unfold:
  "api cfg w =
    (case settle (request_interceptor cfg w) (fst (receive (emit (Sent (request_interceptor cfg w)) w))) of
       Inr resp \<Rightarrow> (Resolved resp, snd (receive (emit (Sent (request_interceptor cfg w)) w)))
     | Inl err \<Rightarrow> response_rejected err (snd (receive (emit (Sent (request_interceptor cfg w)) w))))"
  by (subst api.simps) (simp add: Let_def case_prod_beta)

lemma api_retried:
  assumes "retry cfg"
  shows "api cfg w =
    (case settle (request_interceptor cfg w) (fst (receive (emit (Sent (request_interceptor cfg w)) w))) of
       Inr resp \<Rightarrow> (Resolved resp, snd (receive (emit (Sent (request_interceptor cfg w)) w)))
     | Inl err \<Rightarrow> handle_error_types err (snd (receive (emit (Sent (request_interceptor cfg w)) w))))"
proof -
  have "response_rejected err w' = handle_error_types err w'"
    if "settle (request_interceptor cfg w) r = Inl err" for err r w'
  proof -
    from that have "error_config err = request_interceptor cfg w"
      by (simp add: settle_Inl_config)
    with assms show ?thesis by (simp add: response_rejected_retried)
  qed
  then show ?thesis
    by (simp add: api_unfold split: sum.splits)
qed

lemma api_retried_effects:
  assumes "retry cfg"
  shows "storage (snd (api cfg w)) = storage w"
    and "sent (log (snd (api cfg w))) = sent (log w) @ [request_interceptor cfg w]"
    and "posted (log (snd (api cfg w))) = posted (log w)"
    and "redirects (log (snd (api cfg w))) = redirects (log w)"
    and "network (snd (api cfg w)) = tl (network w)"
  using assms
  by (auto simp: api_retried receive_def emit_def handle_error_types_log
      split: sum.splits list.splits)

lemma api_unauthorized:
  assumes "network w = Some r # rest" and "status r = 401"
  shows "api cfg w =
     response_rejected (AxiosError (request_interceptor cfg w) (Some r))
       (w\<lparr>log := log w @ [Sent (request_interceptor cfg w)], network := rest\<rparr>)"
  using assms by (simp add: api_unfold receive_def emit_def settle_unauthorized)

lemma api_refresh_replay:
  assumes "\<not> retry cfg"
    and "network w = Some r401 # Some r # rest"
    and "status r401 = 401"
    and "getItem ''refresh_token'' w = Some rt" and "rt \<noteq> []"
    and "validateStatus (status r)"
  shows "api cfg w =
      api ((request_interceptor cfg w)\<lparr>retry := True,
              authorization := Some (bearer (js_string (data_access_token r)))\<rparr>)
          (w\<lparr>storage := (storage w)(''access_token'' \<mapsto> js_string (data_access_token r)),
             network := rest,
             log := log w @ [Sent (request_interceptor cfg w), AxiosPost (refresh_config rt)]\<rparr>)"
proof -
  let ?cfg1 = "request_interceptor cfg w"
  let ?w1 = "w\<lparr>log := log w @ [Sent ?cfg1], network := Some r # rest\<rparr>"
  let ?err = "AxiosError ?cfg1 (Some r401)"
  have not_ok: "\<not> validateStatus (status r401)"
    using assms(3) by (simp add: validateStatus_def)
  have step1: "api cfg w = response_rejected ?err ?w1"
    using assms(2) not_ok
    by (subst api.simps) (simp add: Let_def receive_def emit_def settle_def)
  have rt: "getItem ''refresh_token'' ?w1 = Some rt"
    using assms(4) by (simp add: getItem_def)
  have step2: "response_rejected ?err ?w1 =
      api (?cfg1\<lparr>retry := True,
              authorization := Some (bearer (js_string (data_access_token r)))\<rparr>)
          (w\<lparr>storage := (storage w)(''access_token'' \<mapsto> js_string (data_access_token r)),
             network := rest,
             log := log w @ [Sent ?cfg1, AxiosPost (refresh_config rt)]\<rparr>)"
    using assms(1,3,5,6) rt
    by (subst response_rejected.simps)
       (simp add: Let_def error_status_def receive_def emit_def settle_def setItem_def world_reorder)
  from step1 step2 show ?thesis by simp
qed

lemma response_rejected_bounds:
  "length (sent (log (snd (response_rejected err w)))) \<le> length (sent (log w)) + 1
   \<and> length (posted (log (snd (response_rejected err w)))) \<le> length (posted (log w)) + 1
   \<and> length (redirects (log (snd (response_rejected err w)))) \<le> length (redirects (log w)) + 1
   \<and> (storage (snd (response_rejected err w)) ''refresh_token'' = storage w ''refresh_token''
      \<or> storage (snd (response_rejected err w)) ''refresh_token'' = None
        \<and> redirects (log (snd (response_rejected err w))) = redirects (log w) @ [''/login'']
        \<and> (\<exists>e. fst (response_rejected err w) = Rejected e))"
proof (cases "error_status err = Some 401 \<and> \<not> retry (error_config err)")
  case False
  then show ?thesis
    by (simp add: response_rejected_plain handle_error_types_log)
next
  case True
  show ?thesis
  proof (cases "truthy (getItem ''refresh_token'' w)")
    case False
    with True show ?thesis
      by (simp add: response_rejected_no_refresh_token)
  next
    case truthy: True
    then obtain rt where rt: "getItem ''refresh_token'' w = Some rt" "rt \<noteq> []"
      by (cases "getItem ''refresh_token'' w") auto
    show ?thesis
    proof (cases "settle (refresh_config rt) (fst (receive (emit (AxiosPost (refresh_config rt)) w)))")
      case (Inl e)
      with True rt show ?thesis
        by (simp add: response_rejected_refresh_failed emit_def removeItem_def)
    next
      case (Inr resp)
      with True rt show ?thesis
        by (simp add: response_rejected_refresh_ok api_retried_effects setItem_def emit_def)
    qed
  qed
qed

lemma api_bounds:
  "length (sent (log (snd (api cfg w)))) \<le> length (sent (log w)) + 2
   \<and> length (posted (log (snd (api cfg w)))) \<le> length (posted (log w)) + 1
   \<and> length (redirects (log (snd (api cfg w)))) \<le> length (redirects (log w)) + 1
   \<and> (storage (snd (api cfg w)) ''refresh_token'' = storage w ''refresh_token''
      \<or> storage (snd (api cfg w)) ''refresh_token'' = None
        \<and> redirects (log (snd (api cfg w))) = redirects (log w) @ [''/login'']
        \<and> (\<exists>e. fst (api cfg w) = Rejected e))"
proof (cases "settle (request_interceptor cfg w)
                (fst (receive (emit (Sent (request_interceptor cfg w)) w)))")
  case (Inr resp)
  then show ?thesis
    by (simp add: api_unfold emit_def)
next
  case (Inl err)
  let ?w1 = "snd (receive (emit (Sent (request_interceptor cfg w)) w))"
  have eq: "api cfg w = response_rejected err ?w1"
    using Inl by (simp add: api_unfold)
  have w1: "sent (log ?w1) = sent (log w) @ [request_interceptor cfg w]"
    "posted (log ?w1) = posted (log w)" "redirects (log ?w1) = redirects (log w)"
    "storage ?w1 = storage w"
    by (simp_all add: emit_def)
  from response_rejected_bounds [of err ?w1] show ?thesis
    unfolding eq w1 by simp
qed

lemma response_rejected_log_prefix:
  "\<exists>evs. log (snd (response_rejected err w)) = log w @ evs"
proof (cases "error_status err = Some 401 \<and> \<not> retry (error_config err)")
  case False
  then show ?thesis
    by (simp add: response_rejected_plain handle_error_types_log_prefix)
next
  case True
  show ?thesis
  proof (cases "truthy (getItem ''refresh_token'' w)")
    case False
    with True show ?thesis
      by (simp add: response_rejected_no_refresh_token)
  next
    case truthy: True
    then obtain rt where rt: "getItem ''refresh_token'' w = Some rt" "rt \<noteq> []"
      by (cases "getItem ''refresh_token'' w") auto
    show ?thesis
    proof (cases "settle (refresh_config rt) (fst (receive (emit (AxiosPost (refresh_config rt)) w)))")
      case (Inl e)
      with True rt show ?thesis
        by (simp add: response_rejected_refresh_failed emit_def removeItem_def)
    next
      case (Inr resp)
      let ?cfg = "(error_config err)\<lparr>retry := True,
            authorization := Some (bearer (js_string (data_access_token resp)))\<rparr>"
      let ?w = "setItem ''access_token'' (js_string (data_access_token resp))
          (snd (receive (emit (AxiosPost (refresh_config rt)) w)))"
      have "log (snd (api ?cfg ?w)) =
          log (snd (receive (emit (Sent (request_interceptor ?cfg ?w)) ?w))) \<or>
        (\<exists>e. log (snd (api ?cfg ?w)) =
          log (snd (handle_error_types e (snd (receive (emit (Sent (request_interceptor ?cfg ?w)) ?w))))))"
        by (subst (1 2) api_retried) (auto split: sum.splits)
      then have "\<exists>evs. log (snd (api ?cfg ?w)) = log w @ evs"
        using handle_error_types_log_prefix
        by (auto simp: handle_error_types_def emit_def setItem_def)
      with True rt Inr show ?thesis
        by (simp add: response_rejected_refresh_ok)
    qed
  qed
qed

lemma api_log_prefix:
  "\<exists>evs. log (snd (api cfg w)) = log w @ Sent (request_interceptor cfg w) # evs"
proof (cases "settle (request_interceptor cfg w)
                (fst (receive (emit (Sent (request_interceptor cfg w)) w)))")
  case (Inr resp)
  then show ?thesis
    by (simp add: api_unfold emit_def)
next
  case (Inl err)
  let ?w1 = "snd (receive (emit (Sent (request_interceptor cfg w)) w))"
  have eq: "api cfg w = response_rejected err ?w1"
    using Inl by (simp add: api_unfold)
  from response_rejected_log_prefix [of err ?w1] show ?thesis
    unfolding eq by (simp add: emit_def)
qed

subsection \<open>The request interceptor\<close>

text \<open>
  C3. The request interceptor sets the \<^verbatim>\<open>Authorization\<close> header to \<^verbatim>\<open>Bearer <token>\<close> whenever
  a non-empty access token is stored; when the \<^verbatim>\<open>access_token\<close> entry is absent or is the empty
  string it leaves the request as it is. So a request that carries no header of its own is
  sent with one exactly when a non-empty access token is stored, and the request the instance
  dispatches first is the interceptor's result. (Presence of the entry alone is not enough:
  the guard \<^verbatim>\<open>if (token)\<close> tests truthiness, so with the empty string stored no header is
  attached.)
\<close>

theorem authorization_header:
  "(\<forall>t. getItem ''access_token'' w = Some t \<and> t \<noteq> [] \<longrightarrow>
       authorization (request_interceptor cfg w) = Some (''Bearer '' @ t))
   \<and> (getItem ''access_token'' w = None \<or> getItem ''access_token'' w = Some [] \<longrightarrow>
       request_interceptor cfg w = cfg)
   \<and> (authorization cfg = None \<longrightarrow>
       (authorization (request_interceptor cfg w) \<noteq> None) =
       (\<exists>t. getItem ''access_token'' w = Some t \<and> t \<noteq> []))
   \<and> (\<exists>evs. log (snd (api cfg w)) = log w @ Sent (request_interceptor cfg w) # evs)"
proof -
  have "(\<forall>t. getItem ''access_token'' w = Some t \<and> t \<noteq> [] \<longrightarrow>
       authorization (request_interceptor cfg w) = Some (''Bearer '' @ t))
   \<and> (getItem ''access_token'' w = None \<or> getItem ''access_token'' w = Some [] \<longrightarrow>
       request_interceptor cfg w = cfg)
   \<and> (authorization cfg = None \<longrightarrow>
       (authorization (request_interceptor cfg w) \<noteq> None) =
       (\<exists>t. getItem ''access_token'' w = Some t \<and> t \<noteq> []))"
    by (cases "getItem ''access_token'' w")
       (auto simp: request_interceptor_def bearer_def Let_def)
  with api_log_prefix [of cfg w] show ?thesis by blast
qed

theorem authorization_header_witness:
  "authorization (request_interceptor
      \<lparr>url = ''/auth/me'', method = ''get'', body = NoData, authorization = None, retry = False\<rparr>
      \<lparr>storage = [''access_token'' \<mapsto> ''abc''], network = [], log = []\<rparr>) = Some ''Bearer abc''
   \<and> request_interceptor
      \<lparr>url = ''/auth/me'', method = ''get'', body = NoData, authorization = None, retry = False\<rparr>
      \<lparr>storage = Map.empty, network = [], log = []\<rparr>
     = \<lparr>url = ''/auth/me'', method = ''get'', body = NoData, authorization = None, retry = False\<rparr>"
  using authorization_header [of
      "\<lparr>storage = [''access_token'' \<mapsto> ''abc''], network = [], log = []\<rparr>"
      "\<lparr>url = ''/auth/me'', method = ''get'', body = NoData, authorization = None, retry = False\<rparr>"]
    authorization_header [of
      "\<lparr>storage = Map.empty, network = [], log = []\<rparr>"
      "\<lparr>url = ''/auth/me'', method = ''get'', body = NoData, authorization = None, retry = False\<rparr>"]
  by (simp add: getItem_def)

theorem empty_access_token_counterexample:
  "getItem ''access_token'' \<lparr>storage = [''access_token'' \<mapsto> []], network = [], log = []\<rparr> \<noteq> None
   \<and> authorization (request_interceptor
        \<lparr>url = ''/auth/me'', method = ''get'', body = NoData, authorization = None, retry = False\<rparr>
        \<lparr>storage = [''access_token'' \<mapsto> []], network = [], log = []\<rparr>) = None"
  by (simp add: request_interceptor_def getItem_def)

subsection \<open>Refresh and replay\<close>

text \<open>
  C1. A request that has not been retried receives a 401; a refresh token is stored (non-empty,
  or no refresh call is made at all) and the refresh call is answered with a 2xx status. Then
  the client stores the access token of that answer, sends the original request once more and
  only once, marked as retried and with the header \<^verbatim>\<open>Bearer <new token>\<close>, and hands the
  outcome of that replay (its response, or its error after the usual error handling) to the
  caller; nothing redirects the session.
\<close>

theorem refresh_and_replay:
  assumes "\<not> retry cfg"
    and "network w = Some r401 # Some r # rest"
    and "status r401 = 401"
    and "getItem ''refresh_token'' w = Some rt" and "rt \<noteq> []"
    and "validateStatus (status r)"
  shows "let t = js_string (data_access_token r);
             cfg1 = request_interceptor cfg w;
             cfg2 = cfg1\<lparr>retry := True, authorization := Some (bearer t)\<rparr>;
             w2 = w\<lparr>storage := (storage w)(''access_token'' \<mapsto> t), network := rest,
                    log := log w @ [Sent cfg1, AxiosPost (refresh_config rt), Sent cfg2]\<rparr>
         in api cfg w =
              (case settle cfg2 (fst (receive w2)) of
                 Inr resp \<Rightarrow> (Resolved resp, snd (receive w2))
               | Inl err \<Rightarrow> handle_error_types err (snd (receive w2)))
          \<and> fst (api cfg w) =
              (case settle cfg2 (fst (receive w2)) of
                 Inr resp \<Rightarrow> Resolved resp
               | Inl err \<Rightarrow> Rejected err)
          \<and> storage (snd (api cfg w)) ''access_token'' = Some t
          \<and> sent (log (snd (api cfg w))) = sent (log w) @ [cfg1, cfg2]
          \<and> posted (log (snd (api cfg w))) = posted (log w) @ [refresh_config rt]
          \<and> redirects (log (snd (api cfg w))) = redirects (log w)"
proof -
  let ?t = "js_string (data_access_token r)"
  let ?cfg1 = "request_interceptor cfg w"
  let ?cfg2 = "?cfg1\<lparr>retry := True, authorization := Some (bearer ?t)\<rparr>"
  let ?w1 = "w\<lparr>storage := (storage w)(''access_token'' \<mapsto> ?t), network := rest,
                log := log w @ [Sent ?cfg1, AxiosPost (refresh_config rt)]\<rparr>"
  let ?w2 = "w\<lparr>storage := (storage w)(''access_token'' \<mapsto> ?t), network := rest,
                log := log w @ [Sent ?cfg1, AxiosPost (refresh_config rt), Sent ?cfg2]\<rparr>"
  have eq: "api cfg w = api ?cfg2 ?w1"
    using api_refresh_replay [OF assms] .
  have same: "request_interceptor ?cfg2 ?w1 = ?cfg2"
    using request_interceptor_replay [of ?w1 ?t "?cfg1\<lparr>retry := True\<rparr>"] by simp
  have w2: "emit (Sent ?cfg2) ?w1 = ?w2"
    by (simp add: emit_def)
  have main: "api cfg w =
      (case settle ?cfg2 (fst (receive ?w2)) of
         Inr resp \<Rightarrow> (Resolved resp, snd (receive ?w2))
       | Inl err \<Rightarrow> handle_error_types err (snd (receive ?w2)))"
    unfolding eq using api_retried [of ?cfg2 ?w1] unfolding same w2 by simp
  have out: "fst (api cfg w) =
      (case settle ?cfg2 (fst (receive ?w2)) of
         Inr resp \<Rightarrow> Resolved resp
       | Inl err \<Rightarrow> Rejected err)"
    unfolding main by (simp split: sum.splits)
  have eff: "storage (snd (api cfg w)) ''access_token'' = Some ?t"
    "sent (log (snd (api cfg w))) = sent (log w) @ [?cfg1, ?cfg2]"
    "posted (log (snd (api cfg w))) = posted (log w) @ [refresh_config rt]"
    "redirects (log (snd (api cfg w))) = redirects (log w)"
    unfolding eq by (simp_all add: api_retried_effects same)
  from main out eff show ?thesis by (simp only: Let_def)
qed

theorem refresh_and_replay_witness:
  "fst (api \<lparr>url = ''/auth/me'', method = ''get'', body = NoData, authorization = None, retry = False\<rparr>
          \<lparr>storage = [''access_token'' \<mapsto> ''old'', ''refresh_token'' \<mapsto> ''rt''], network = [Some \<lparr>status = 401, data_access_token = None, data_refresh_token = None, data_user = None, data_message = None, data = ''expired''\<rparr>, Some \<lparr>status = 200, data_access_token = Some ''new'', data_refresh_token = None, data_user = None, data_message = None, data = []\<rparr>, Some \<lparr>status = 200, data_access_token = None, data_refresh_token = None, data_user = None, data_message = None, data = ''me''\<rparr>], log = []\<rparr>)
     = Resolved \<lparr>status = 200, data_access_token = None, data_refresh_token = None, data_user = None, data_message = None, data = ''me''\<rparr>
   \<and> storage (snd (api \<lparr>url = ''/auth/me'', method = ''get'', body = NoData, authorization = None, retry = False\<rparr>
          \<lparr>storage = [''access_token'' \<mapsto> ''old'', ''refresh_token'' \<mapsto> ''rt''], network = [Some \<lparr>status = 401, data_access_token = None, data_refresh_token = None, data_user = None, data_message = None, data = ''expired''\<rparr>, Some \<lparr>status = 200, data_access_token = Some ''new'', data_refresh_token = None, data_user = None, data_message = None, data = []\<rparr>, Some \<lparr>status = 200, data_access_token = None, data_refresh_token = None, data_user = None, data_message = None, data = ''me''\<rparr>], log = []\<rparr>)) ''access_token'' = Some ''new''
   \<and> sent (log (snd (api \<lparr>url = ''/auth/me'', method = ''get'', body = NoData, authorization = None, retry = False\<rparr>
          \<lparr>storage = [''access_token'' \<mapsto> ''old'', ''refresh_token'' \<mapsto> ''rt''], network = [Some \<lparr>status = 401, data_access_token = None, data_refresh_token = None, data_user = None, data_message = None, data = ''expired''\<rparr>, Some \<lparr>status = 200, data_access_token = Some ''new'', data_refresh_token = None, data_user = None, data_message = None, data = []\<rparr>, Some \<lparr>status = 200, data_access_token = None, data_refresh_token = None, data_user = None, data_message = None, data = ''me''\<rparr>], log = []\<rparr>)))
     = [\<lparr>url = ''/auth/me'', method = ''get'', body = NoData, authorization = Some ''Bearer old'', retry = False\<rparr>,
        \<lparr>url = ''/auth/me'', method = ''get'', body = NoData, authorization = Some ''Bearer new'', retry = True\<rparr>]
   \<and> posted (log (snd (api \<lparr>url = ''/auth/me'', method = ''get'', body = NoData, authorization = None, retry = False\<rparr>
          \<lparr>storage = [''access_token'' \<mapsto> ''old'', ''refresh_token'' \<mapsto> ''rt''], network = [Some \<lparr>status = 401, data_access_token = None, data_refresh_token = None, data_user = None, data_message = None, data = ''expired''\<rparr>, Some \<lparr>status = 200, data_access_token = Some ''new'', data_refresh_token = None, data_user = None, data_message = None, data = []\<rparr>, Some \<lparr>status = 200, data_access_token = None, data_refresh_token = None, data_user = None, data_message = None, data = ''me''\<rparr>], log = []\<rparr>)))
     = [\<lparr>url = ''http://localhost:5000/api/v1/auth/refresh'', method = ''post'', body = ObjectData [], authorization = Some ''Bearer rt'', retry = False\<rparr>]
   \<and> redirects (log (snd (api \<lparr>url = ''/auth/me'', method = ''get'', body = NoData, authorization = None, retry = False\<rparr>
          \<lparr>storage = [''access_token'' \<mapsto> ''old'', ''refresh_token'' \<mapsto> ''rt''], network = [Some \<lparr>status = 401, data_access_token = None, data_refresh_token = None, data_user = None, data_message = None, data = ''expired''\<rparr>, Some \<lparr>status = 200, data_access_token = Some ''new'', data_refresh_token = None, data_user = None, data_message = None, data = []\<rparr>, Some \<lparr>status = 200, data_access_token = None, data_refresh_token = None, data_user = None, data_message = None, data = ''me''\<rparr>], log = []\<rparr>))) = []"
  using refresh_and_replay [of
      "\<lparr>url = ''/auth/me'', method = ''get'', body = NoData, authorization = None, retry = False\<rparr>"
      "\<lparr>storage = [''access_token'' \<mapsto> ''old'', ''refresh_token'' \<mapsto> ''rt''], network = [Some \<lparr>status = 401, data_access_token = None, data_refresh_token = None, data_user = None, data_message = None, data = ''expired''\<rparr>, Some \<lparr>status = 200, data_access_token = Some ''new'', data_refresh_token = None, data_user = None, data_message = None, data = []\<rparr>, Some \<lparr>status = 200, data_access_token = None, data_refresh_token = None, data_user = None, data_message = None, data = ''me''\<rparr>], log = []\<rparr>"
      "\<lparr>status = 401, data_access_token = None, data_refresh_token = None, data_user = None, data_message = None, data = ''expired''\<rparr>"
      "\<lparr>status = 200, data_access_token = Some ''new'', data_refresh_token = None, data_user = None, data_message = None, data = []\<rparr>"
      "[Some \<lparr>status = 200, data_access_token = None, data_refresh_token = None, data_user = None, data_message = None, data = ''me''\<rparr>]" "''rt''"]
  by (simp add: Let_def getItem_def validateStatus_def request_interceptor_def settle_def receive_def bearer_def refresh_config_def BASE_URL_def emit_def)

text \<open>
  C2. One call of the instance dispatches the request at most twice, posts at most one refresh
  call and redirects at most once; a request already marked as retried is dispatched exactly
  once, with no refresh call, so a 401 on it is final. When the refresh call fails (no
  response, or a status outside 2xx), both tokens are removed from the storage, the location
  is set to \<^verbatim>\<open>/login\<close> exactly once, the request is not replayed and the refresh error is
  rejected. The function is total: it always returns.
\<close>

theorem retry_at_most_once:
  "length (sent (log (snd (api cfg w)))) \<le> length (sent (log w)) + 2
   \<and> length (posted (log (snd (api cfg w)))) \<le> length (posted (log w)) + 1
   \<and> length (redirects (log (snd (api cfg w)))) \<le> length (redirects (log w)) + 1
   \<and> (retry cfg \<longrightarrow>
        sent (log (snd (api cfg w))) = sent (log w) @ [request_interceptor cfg w]
      \<and> posted (log (snd (api cfg w))) = posted (log w)
      \<and> redirects (log (snd (api cfg w))) = redirects (log w)
      \<and> storage (snd (api cfg w)) = storage w)
   \<and> (retry cfg \<and> network w = Some r # rest \<and> status r = 401 \<longrightarrow>
        api cfg w =
          (Rejected (AxiosError (request_interceptor cfg w) (Some r)),
           w\<lparr>log := log w @ [Sent (request_interceptor cfg w)], network := rest\<rparr>))
   \<and> (\<not> retry cfg \<and> network w = Some r # answer # later \<and> status r = 401
      \<and> getItem ''refresh_token'' w = Some rt \<and> rt \<noteq> []
      \<and> (\<forall>resp. answer = Some resp \<longrightarrow> \<not> validateStatus (status resp)) \<longrightarrow>
        api cfg w =
          (Rejected (AxiosError (refresh_config rt) answer),
           w\<lparr>storage := (storage w)(''access_token'' := None, ''refresh_token'' := None),
             network := later,
             log := log w @ [Sent (request_interceptor cfg w), AxiosPost (refresh_config rt),
                             Redirect ''/login'']\<rparr>)
      \<and> sent (log (snd (api cfg w))) = sent (log w) @ [request_interceptor cfg w]
      \<and> redirects (log (snd (api cfg w))) = redirects (log w) @ [''/login''])"
proof -
  have retried: "api cfg w =
      (Rejected (AxiosError (request_interceptor cfg w) (Some r)),
       w\<lparr>log := log w @ [Sent (request_interceptor cfg w)], network := rest\<rparr>)"
    if "retry cfg" "network w = Some r # rest" "status r = 401"
    using that
    by (simp add: api_unauthorized response_rejected_retried handle_error_types_def
        error_status_def)
  have failed: "api cfg w =
      (Rejected (AxiosError (refresh_config rt) answer),
       w\<lparr>storage := (storage w)(''access_token'' := None, ''refresh_token'' := None),
         network := later,
         log := log w @ [Sent (request_interceptor cfg w), AxiosPost (refresh_config rt),
                         Redirect ''/login'']\<rparr>)"
    if "\<not> retry cfg" "network w = Some r # answer # later" "status r = 401"
      "getItem ''refresh_token'' w = Some rt" "rt \<noteq> []"
      "\<forall>resp. answer = Some resp \<longrightarrow> \<not> validateStatus (status resp)"
  proof -
    let ?w1 = "w\<lparr>log := log w @ [Sent (request_interceptor cfg w)], network := answer # later\<rparr>"
    let ?err = "AxiosError (request_interceptor cfg w) (Some r)"
    have s: "settle (refresh_config rt) (fst (receive (emit (AxiosPost (refresh_config rt)) ?w1)))
        = Inl (AxiosError (refresh_config rt) answer)"
      using that(6) by (cases answer) (simp_all add: settle_def receive_def emit_def)
    have "getItem ''refresh_token'' ?w1 = Some rt"
      using that(4) by (simp add: getItem_def)
    from response_rejected_refresh_failed [of ?err ?w1, OF _ _ this that(5) s] that(1,3)
    have "response_rejected ?err ?w1 =
       (Rejected (AxiosError (refresh_config rt) answer),
        emit (Redirect ''/login'')
          (removeItem ''refresh_token'' (removeItem ''access_token''
             (snd (receive (emit (AxiosPost (refresh_config rt)) ?w1))))))"
      by (simp add: error_status_def)
    then show ?thesis
      unfolding api_unauthorized [OF that(2,3)]
      by (simp add: emit_def removeItem_def receive_def)
  qed
  from api_bounds [of cfg w] retried failed show ?thesis
    by (simp add: api_retried_effects)
qed

theorem retry_at_most_once_witness:
  "fst (api \<lparr>url = ''/auth/me'', method = ''get'', body = NoData, authorization = None, retry = False\<rparr>
          \<lparr>storage = [''access_token'' \<mapsto> ''old'', ''refresh_token'' \<mapsto> ''rt''], network = [Some \<lparr>status = 401, data_access_token = None, data_refresh_token = None, data_user = None, data_message = None, data = ''expired''\<rparr>, Some \<lparr>status = 401, data_access_token = None, data_refresh_token = None, data_user = None, data_message = None, data = ''expired''\<rparr>], log = []\<rparr>)
     = Rejected (AxiosError \<lparr>url = ''http://localhost:5000/api/v1/auth/refresh'', method = ''post'', body = ObjectData [], authorization = Some ''Bearer rt'', retry = False\<rparr>
                   (Some \<lparr>status = 401, data_access_token = None, data_refresh_token = None, data_user = None, data_message = None, data = ''expired''\<rparr>))
   \<and> storage (snd (api \<lparr>url = ''/auth/me'', method = ''get'', body = NoData, authorization = None, retry = False\<rparr>
          \<lparr>storage = [''access_token'' \<mapsto> ''old'', ''refresh_token'' \<mapsto> ''rt''], network = [Some \<lparr>status = 401, data_access_token = None, data_refresh_token = None, data_user = None, data_message = None, data = ''expired''\<rparr>, Some \<lparr>status = 401, data_access_token = None, data_refresh_token = None, data_user = None, data_message = None, data = ''expired''\<rparr>], log = []\<rparr>)) ''access_token'' = None
   \<and> storage (snd (api \<lparr>url = ''/auth/me'', method = ''get'', body = NoData, authorization = None, retry = False\<rparr>
          \<lparr>storage = [''access_token'' \<mapsto> ''old'', ''refresh_token'' \<mapsto> ''rt''], network = [Some \<lparr>status = 401, data_access_token = None, data_refresh_token = None, data_user = None, data_message = None, data = ''expired''\<rparr>, Some \<lparr>status = 401, data_access_token = None, data_refresh_token = None, data_user = None, data_message = None, data = ''expired''\<rparr>], log = []\<rparr>)) ''refresh_token'' = None
   \<and> redirects (log (snd (api \<lparr>url = ''/auth/me'', method = ''get'', body = NoData, authorization = None, retry = False\<rparr>
          \<lparr>storage = [''access_token'' \<mapsto> ''old'', ''refresh_token'' \<mapsto> ''rt''], network = [Some \<lparr>status = 401, data_access_token = None, data_refresh_token = None, data_user = None, data_message = None, data = ''expired''\<rparr>, Some \<lparr>status = 401, data_access_token = None, data_refresh_token = None, data_user = None, data_message = None, data = ''expired''\<rparr>], log = []\<rparr>))) = [''/login'']
   \<and> sent (log (snd (api \<lparr>url = ''/auth/me'', method = ''get'', body = NoData, authorization = None, retry = False\<rparr>
          \<lparr>storage = [''access_token'' \<mapsto> ''old'', ''refresh_token'' \<mapsto> ''rt''], network = [Some \<lparr>status = 401, data_access_token = None, data_refresh_token = None, data_user = None, data_message = None, data = ''expired''\<rparr>, Some \<lparr>status = 401, data_access_token = None, data_refresh_token = None, data_user = None, data_message = None, data = ''expired''\<rparr>], log = []\<rparr>)))
     = [\<lparr>url = ''/auth/me'', method = ''get'', body = NoData, authorization = Some ''Bearer old'', retry = False\<rparr>]
   \<and> api \<lparr>url = ''/auth/me'', method = ''get'', body = NoData, authorization = Some ''Bearer old'', retry = True\<rparr>
          \<lparr>storage = [''access_token'' \<mapsto> ''old'', ''refresh_token'' \<mapsto> ''rt''], network = [Some \<lparr>status = 401, data_access_token = None, data_refresh_token = None, data_user = None, data_message = None, data = ''expired''\<rparr>], log = []\<rparr>
     = (Rejected (AxiosError \<lparr>url = ''/auth/me'', method = ''get'', body = NoData, authorization = Some ''Bearer old'', retry = True\<rparr>
                    (Some \<lparr>status = 401, data_access_token = None, data_refresh_token = None, data_user = None, data_message = None, data = ''expired''\<rparr>)),
        \<lparr>storage = [''access_token'' \<mapsto> ''old'', ''refresh_token'' \<mapsto> ''rt''], network = [], log = [Sent \<lparr>url = ''/auth/me'', method = ''get'', body = NoData, authorization = Some ''Bearer old'', retry = True\<rparr>]\<rparr>)"
  using retry_at_most_once [where
      cfg = "\<lparr>url = ''/auth/me'', method = ''get'', body = NoData, authorization = None, retry = False\<rparr>"
      and w = "\<lparr>storage = [''access_token'' \<mapsto> ''old'', ''refresh_token'' \<mapsto> ''rt''], network = [Some \<lparr>status = 401, data_access_token = None, data_refresh_token = None, data_user = None, data_message = None, data = ''expired''\<rparr>, Some \<lparr>status = 401, data_access_token = None, data_refresh_token = None, data_user = None, data_message = None, data = ''expired''\<rparr>], log = []\<rparr>"
      and r = "\<lparr>status = 401, data_access_token = None, data_refresh_token = None, data_user = None, data_message = None, data = ''expired''\<rparr>"
      and answer = "Some \<lparr>status = 401, data_access_token = None, data_refresh_token = None, data_user = None, data_message = None, data = ''expired''\<rparr>" and later = "[]" and rt = "''rt''"]
    retry_at_most_once [where
      cfg = "\<lparr>url = ''/auth/me'', method = ''get'', body = NoData, authorization = Some ''Bearer old'', retry = True\<rparr>"
      and w = "\<lparr>storage = [''access_token'' \<mapsto> ''old'', ''refresh_token'' \<mapsto> ''rt''], network = [Some \<lparr>status = 401, data_access_token = None, data_refresh_token = None, data_user = None, data_message = None, data = ''expired''\<rparr>], log = []\<rparr>"
      and r = "\<lparr>status = 401, data_access_token = None, data_refresh_token = None, data_user = None, data_message = None, data = ''expired''\<rparr>" and rest = "[]"]
  by (simp add: getItem_def validateStatus_def request_interceptor_def settle_def receive_def bearer_def refresh_config_def BASE_URL_def emit_def)

lemma checkAuth_refresh_token:
  "(truthy (getItem ''access_token'' w)
      \<and> (\<exists>err. fst (api \<lparr>url = ''/auth/me'', method = ''get'', body = NoData,
                authorization = None, retry = False\<rparr> w) = Rejected err) \<longrightarrow>
       storage (snd (checkAuth a w)) ''refresh_token'' = None)
   \<and> (\<not> (truthy (getItem ''access_token'' w)
      \<and> (\<exists>err. fst (api \<lparr>url = ''/auth/me'', method = ''get'', body = NoData,
                authorization = None, retry = False\<rparr> w) = Rejected err)) \<longrightarrow>
       storage (snd (checkAuth a w)) ''refresh_token'' = storage w ''refresh_token'')"
proof -
  let ?cfg = "\<lparr>url = ''/auth/me'', method = ''get'', body = NoData,
                authorization = None, retry = False\<rparr>"
  from api_bounds [of ?cfg w] show ?thesis
    by (cases "api ?cfg w"; cases "fst (api ?cfg w)")
       (auto simp: checkAuth_def authApi_getMe_def Let_def removeItem_def)
qed

lemma login_refresh_token:
  "(\<forall>resp. fst (api \<lparr>url = ''/auth/login'', method = ''post'',
                body = ObjectData [(''email'', e), (''password'', p)],
                authorization = None, retry = False\<rparr> w) = Resolved resp \<longrightarrow>
       storage (snd (snd (login e p a w))) ''refresh_token''
         = Some (js_string (data_refresh_token resp)))
   \<and> ((\<exists>err. fst (api \<lparr>url = ''/auth/login'', method = ''post'',
                body = ObjectData [(''email'', e), (''password'', p)],
                authorization = None, retry = False\<rparr> w) = Rejected err) \<longrightarrow>
       storage (snd (snd (login e p a w))) ''refresh_token'' = storage w ''refresh_token''
       \<or> storage (snd (snd (login e p a w))) ''refresh_token'' = None)"
proof -
  let ?cfg = "\<lparr>url = ''/auth/login'', method = ''post'',
                body = ObjectData [(''email'', e), (''password'', p)],
                authorization = None, retry = False\<rparr>"
  from api_bounds [of ?cfg w] show ?thesis
    by (cases "api ?cfg w"; cases "fst (api ?cfg w)")
       (auto simp: login_def authApi_login_def Let_def setItem_def emit_def)
qed

lemma register_refresh_token:
  "(\<forall>resp. fst (api \<lparr>url = ''/auth/register'', method = ''post'',
                body = ObjectData [(''username'', n), (''email'', e), (''password'', p)],
                authorization = None, retry = False\<rparr> w) = Resolved resp \<longrightarrow>
       storage (snd (snd (register n e p a w))) ''refresh_token''
         = Some (js_string (data_refresh_token resp)))
   \<and> ((\<exists>err. fst (api \<lparr>url = ''/auth/register'', method = ''post'',
                body = ObjectData [(''username'', n), (''email'', e), (''password'', p)],
                authorization = None, retry = False\<rparr> w) = Rejected err) \<longrightarrow>
       storage (snd (snd (register n e p a w))) ''refresh_token'' = storage w ''refresh_token''
       \<or> storage (snd (snd (register n e p a w))) ''refresh_token'' = None)"
proof -
  let ?cfg = "\<lparr>url = ''/auth/register'', method = ''post'',
                body = ObjectData [(''username'', n), (''email'', e), (''password'', p)],
                authorization = None, retry = False\<rparr>"
  from api_bounds [of ?cfg w] show ?thesis
    by (cases "api ?cfg w"; cases "fst (api ?cfg w)")
       (auto simp: register_def authApi_register_def Let_def setItem_def emit_def)
qed

text \<open>
  C9. After a successful refresh the storage differs from the one before the call in the
  \<^verbatim>\<open>access_token\<close> entry only, so the refresh token is the one stored before. A call of the
  instance never writes a refresh token: afterwards the entry is as before, or it has been
  removed, and then the call has redirected to \<^verbatim>\<open>/login\<close> (the refresh failed). Outside the
  client, \<open>logout\<close> removes the entry; \<open>checkAuth\<close> removes it exactly when a non-empty access token
  is stored and the identity call is rejected, whatever the failure; \<open>login\<close> and \<open>register\<close>
  overwrite it with the \<^verbatim>\<open>refresh_token\<close> of the answer when their call resolves, and never
  write it otherwise.
\<close>

theorem refresh_keeps_refresh_token:
  "(\<not> retry cfg \<and> network w = Some r401 # Some r # rest \<and> status r401 = 401
      \<and> getItem ''refresh_token'' w = Some rt \<and> rt \<noteq> [] \<and> validateStatus (status r) \<longrightarrow>
        storage (snd (api cfg w)) =
          (storage w)(''access_token'' \<mapsto> js_string (data_access_token r))
      \<and> storage (snd (api cfg w)) ''refresh_token'' = Some rt)
   \<and> (storage (snd (api cfg w)) ''refresh_token'' = storage w ''refresh_token''
      \<or> storage (snd (api cfg w)) ''refresh_token'' = None
        \<and> redirects (log (snd (api cfg w))) = redirects (log w) @ [''/login''])
   \<and> storage (snd (logout a w)) ''refresh_token'' = None
   \<and> (truthy (getItem ''access_token'' w)
      \<and> (\<exists>err. fst (api \<lparr>url = ''/auth/me'', method = ''get'', body = NoData,
                authorization = None, retry = False\<rparr> w) = Rejected err) \<longrightarrow>
       storage (snd (checkAuth a w)) ''refresh_token'' = None)
   \<and> (\<not> (truthy (getItem ''access_token'' w)
      \<and> (\<exists>err. fst (api \<lparr>url = ''/auth/me'', method = ''get'', body = NoData,
                authorization = None, retry = False\<rparr> w) = Rejected err)) \<longrightarrow>
       storage (snd (checkAuth a w)) ''refresh_token'' = storage w ''refresh_token'')
   \<and> (\<forall>resp. fst (api \<lparr>url = ''/auth/login'', method = ''post'',
                body = ObjectData [(''email'', e), (''password'', p)],
                authorization = None, retry = False\<rparr> w) = Resolved resp \<longrightarrow>
       storage (snd (snd (login e p a w))) ''refresh_token''
         = Some (js_string (data_refresh_token resp)))
   \<and> ((\<exists>err. fst (api \<lparr>url = ''/auth/login'', method = ''post'',
                body = ObjectData [(''email'', e), (''password'', p)],
                authorization = None, retry = False\<rparr> w) = Rejected err) \<longrightarrow>
       storage (snd (snd (login e p a w))) ''refresh_token'' = storage w ''refresh_token''
       \<or> storage (snd (snd (login e p a w))) ''refresh_token'' = None)
   \<and> (\<forall>resp. fst (api \<lparr>url = ''/auth/register'', method = ''post'',
                body = ObjectData [(''username'', n), (''email'', e), (''password'', p)],
                authorization = None, retry = False\<rparr> w) = Resolved resp \<longrightarrow>
       storage (snd (snd (register n e p a w))) ''refresh_token''
         = Some (js_string (data_refresh_token resp)))
   \<and> ((\<exists>err. fst (api \<lparr>url = ''/auth/register'', method = ''post'',
                body = ObjectData [(''username'', n), (''email'', e), (''password'', p)],
                authorization = None, retry = False\<rparr> w) = Rejected err) \<longrightarrow>
       storage (snd (snd (register n e p a w))) ''refresh_token'' = storage w ''refresh_token''
       \<or> storage (snd (snd (register n e p a w))) ''refresh_token'' = None)"
  (is "?frame \<and> ?client \<and> ?out \<and> ?chk1 \<and> ?chk2 \<and> ?lg1 \<and> ?lg2 \<and> ?rg1 \<and> ?rg2")
proof -
  have "storage (snd (api cfg w)) =
        (storage w)(''access_token'' \<mapsto> js_string (data_access_token r))
      \<and> storage (snd (api cfg w)) ''refresh_token'' = Some rt"
    if "\<not> retry cfg" "network w = Some r401 # Some r # rest" "status r401 = 401"
      "getItem ''refresh_token'' w = Some rt" "rt \<noteq> []" "validateStatus (status r)"
  proof -
    have "storage (snd (api cfg w)) =
        (storage w)(''access_token'' \<mapsto> js_string (data_access_token r))"
      unfolding api_refresh_replay [OF that] by (simp add: api_retried_effects)
    with that(4) show ?thesis by (simp add: getItem_def)
  qed
  then have frame: ?frame by (intro impI) (elim conjE)
  have client: ?client
    using api_bounds [of cfg w] by (elim conjE disjE) (rule disjI1, assumption, rule disjI2, simp)
  have out: ?out
    by (simp add: logout_def Let_def removeItem_def emit_def)
  note chk = checkAuth_refresh_token [of w a]
  note lg = login_refresh_token [of e p w a]
  note rg = register_refresh_token [of n e p w a]
  show ?thesis
    by (intro conjI)
       (rule frame client out chk [THEN conjunct1] chk [THEN conjunct2]
          lg [THEN conjunct1] lg [THEN conjunct2] rg [THEN conjunct1] rg [THEN conjunct2])+
qed

theorem refresh_keeps_refresh_token_witness:
  "storage (snd (api \<lparr>url = ''/auth/me'', method = ''get'', body = NoData, authorization = None, retry = False\<rparr>
          \<lparr>storage = [''access_token'' \<mapsto> ''old'', ''refresh_token'' \<mapsto> ''rt''], network = [Some \<lparr>status = 401, data_access_token = None, data_refresh_token = None, data_user = None, data_message = None, data = ''expired''\<rparr>, Some \<lparr>status = 200, data_access_token = Some ''new'', data_refresh_token = None, data_user = None, data_message = None, data = []\<rparr>, Some \<lparr>status = 200, data_access_token = None, data_refresh_token = None, data_user = None, data_message = None, data = ''me''\<rparr>], log = []\<rparr>)) ''refresh_token'' = Some ''rt''
   \<and> storage (snd (api \<lparr>url = ''/auth/me'', method = ''get'', body = NoData, authorization = None, retry = False\<rparr>
          \<lparr>storage = [''access_token'' \<mapsto> ''old'', ''refresh_token'' \<mapsto> ''rt''], network = [Some \<lparr>status = 401, data_access_token = None, data_refresh_token = None, data_user = None, data_message = None, data = ''expired''\<rparr>, Some \<lparr>status = 200, data_access_token = Some ''new'', data_refresh_token = None, data_user = None, data_message = None, data = []\<rparr>, Some \<lparr>status = 200, data_access_token = None, data_refresh_token = None, data_user = None, data_message = None, data = ''me''\<rparr>], log = []\<rparr>)) ''access_token'' = Some ''new''
   \<and> storage (snd (snd (login ''m@nerv.jp'' ''pw'' \<lparr>user = None, loading = True\<rparr>
          \<lparr>storage = [''access_token'' \<mapsto> ''old'', ''refresh_token'' \<mapsto> ''rt''], network = [Some \<lparr>status = 200, data_access_token = Some ''at2'', data_refresh_token = Some ''rt2'', data_user = Some \<lparr>user_id = 3, username = ''misato'', email = ''m@nerv.jp'', role = RoleModerator, is_active = True\<rparr>, data_message = None, data = []\<rparr>], log = []\<rparr>))) ''refresh_token'' = Some ''rt2''"
  using refresh_keeps_refresh_token [of
      "\<lparr>url = ''/auth/me'', method = ''get'', body = NoData, authorization = None, retry = False\<rparr>"
      "\<lparr>storage = [''access_token'' \<mapsto> ''old'', ''refresh_token'' \<mapsto> ''rt''], network = [Some \<lparr>status = 401, data_access_token = None, data_refresh_token = None, data_user = None, data_message = None, data = ''expired''\<rparr>, Some \<lparr>status = 200, data_access_token = Some ''new'', data_refresh_token = None, data_user = None, data_message = None, data = []\<rparr>, Some \<lparr>status = 200, data_access_token = None, data_refresh_token = None, data_user = None, data_message = None, data = ''me''\<rparr>], log = []\<rparr>"
      "\<lparr>status = 401, data_access_token = None, data_refresh_token = None, data_user = None, data_message = None, data = ''expired''\<rparr>"
      "\<lparr>status = 200, data_access_token = Some ''new'', data_refresh_token = None, data_user = None, data_message = None, data = []\<rparr>"
      "[Some \<lparr>status = 200, data_access_token = None, data_refresh_token = None, data_user = None, data_message = None, data = ''me''\<rparr>]" "''rt''"]
    refresh_keeps_refresh_token [where
      w = "\<lparr>storage = [''access_token'' \<mapsto> ''old'', ''refresh_token'' \<mapsto> ''rt''], network = [Some \<lparr>status = 200, data_access_token = Some ''at2'', data_refresh_token = Some ''rt2'', data_user = Some \<lparr>user_id = 3, username = ''misato'', email = ''m@nerv.jp'', role = RoleModerator, is_active = True\<rparr>, data_message = None, data = []\<rparr>], log = []\<rparr>"
      and e = "''m@nerv.jp''" and p = "''pw''"
      and a = "\<lparr>user = None, loading = True\<rparr>"]
  by (simp add: api_unfold response_rejected_plain handle_error_types_def error_status_def getItem_def validateStatus_def request_interceptor_def settle_def receive_def bearer_def refresh_config_def BASE_URL_def emit_def)

theorem refresh_token_outside_refresh_counterexample:
  "storage \<lparr>storage = [''access_token'' \<mapsto> ''old'', ''refresh_token'' \<mapsto> ''rt''], network = [Some \<lparr>status = 500, data_access_token = None, data_refresh_token = None, data_user = None, data_message = None, data = ''down''\<rparr>], log = []\<rparr> ''refresh_token'' = Some ''rt''
   \<and> storage (snd (checkAuth \<lparr>user = None, loading = True\<rparr>
          \<lparr>storage = [''access_token'' \<mapsto> ''old'', ''refresh_token'' \<mapsto> ''rt''], network = [Some \<lparr>status = 500, data_access_token = None, data_refresh_token = None, data_user = None, data_message = None, data = ''down''\<rparr>], log = []\<rparr>)) ''refresh_token'' = None
   \<and> posted (log (snd (checkAuth \<lparr>user = None, loading = True\<rparr>
          \<lparr>storage = [''access_token'' \<mapsto> ''old'', ''refresh_token'' \<mapsto> ''rt''], network = [Some \<lparr>status = 500, data_access_token = None, data_refresh_token = None, data_user = None, data_message = None, data = ''down''\<rparr>], log = []\<rparr>))) = []
   \<and> storage (snd (snd (login ''m@nerv.jp'' ''pw'' \<lparr>user = None, loading = True\<rparr>
          \<lparr>storage = [''access_token'' \<mapsto> ''old'', ''refresh_token'' \<mapsto> ''rt''], network = [Some \<lparr>status = 200, data_access_token = Some ''at2'', data_refresh_token = Some ''rt2'', data_user = Some \<lparr>user_id = 3, username = ''misato'', email = ''m@nerv.jp'', role = RoleModerator, is_active = True\<rparr>, data_message = None, data = []\<rparr>], log = []\<rparr>))) ''refresh_token'' = Some ''rt2''"
  by (simp add: checkAuth_def authApi_getMe_def login_def authApi_login_def Let_def
      removeItem_def setItem_def api_unfold response_rejected_plain handle_error_types_def error_status_def getItem_def validateStatus_def request_interceptor_def settle_def receive_def bearer_def refresh_config_def BASE_URL_def emit_def)

text \<open>
  C10. A request that has not been retried receives a 401 while no refresh token is stored
  (or an empty one). Then the error is rejected to the caller, with the request marked as
  retried; no refresh call is posted, the storage is untouched (the access token stays) and
  nothing redirects: the only event is the dispatch of the request itself.
\<close>

theorem unauthorized_without_refresh_token:
  assumes "\<not> retry cfg" and "network w = Some r # rest" and "status r = 401"
    and "getItem ''refresh_token'' w = None \<or> getItem ''refresh_token'' w = Some []"
  shows "api cfg w =
       (Rejected (AxiosError ((request_interceptor cfg w)\<lparr>retry := True\<rparr>) (Some r)),
        w\<lparr>log := log w @ [Sent (request_interceptor cfg w)], network := rest\<rparr>)
     \<and> storage (snd (api cfg w)) = storage w
     \<and> posted (log (snd (api cfg w))) = posted (log w)
     \<and> redirects (log (snd (api cfg w))) = redirects (log w)"
proof -
  let ?w1 = "w\<lparr>log := log w @ [Sent (request_interceptor cfg w)], network := rest\<rparr>"
  have "\<not> truthy (getItem ''refresh_token'' ?w1)"
    using assms(4) by (auto simp: getItem_def)
  then have "api cfg w =
       (Rejected (AxiosError ((request_interceptor cfg w)\<lparr>retry := True\<rparr>) (Some r)), ?w1)"
    using assms(1,3)
    by (simp add: api_unauthorized [OF assms(2,3)] response_rejected_no_refresh_token
        error_status_def)
  then show ?thesis by simp
qed

theorem unauthorized_without_refresh_token_witness:
  "api \<lparr>url = ''/auth/me'', method = ''get'', body = NoData, authorization = None, retry = False\<rparr>
       \<lparr>storage = [''access_token'' \<mapsto> ''old''], network = [Some \<lparr>status = 401, data_access_token = None, data_refresh_token = None, data_user = None, data_message = None, data = ''expired''\<rparr>], log = []\<rparr>
     = (Rejected (AxiosError \<lparr>url = ''/auth/me'', method = ''get'', body = NoData, authorization = Some ''Bearer old'', retry = True\<rparr>
                    (Some \<lparr>status = 401, data_access_token = None, data_refresh_token = None, data_user = None, data_message = None, data = ''expired''\<rparr>)),
        \<lparr>storage = [''access_token'' \<mapsto> ''old''], network = [], log = [Sent \<lparr>url = ''/auth/me'', method = ''get'', body = NoData, authorization = Some ''Bearer old'', retry = False\<rparr>]\<rparr>)"
  using unauthorized_without_refresh_token [of
      "\<lparr>url = ''/auth/me'', method = ''get'', body = NoData, authorization = None, retry = False\<rparr>"
      "\<lparr>storage = [''access_token'' \<mapsto> ''old''], network = [Some \<lparr>status = 401, data_access_token = None, data_refresh_token = None, data_user = None, data_message = None, data = ''expired''\<rparr>], log = []\<rparr>"
      "\<lparr>status = 401, data_access_token = None, data_refresh_token = None, data_user = None, data_message = None, data = ''expired''\<rparr>" "[]"]
  by (simp add: getItem_def validateStatus_def request_interceptor_def settle_def receive_def bearer_def refresh_config_def BASE_URL_def emit_def)

subsection \<open>Notifications\<close>




subsection \<open>Replying to a locked topic\<close>

text \<open>
  The page renders the locked notice in place of the reply form on a locked topic, whoever
  looks at it.
\<close>

lemma reply_form_hidden_when_locked:
  "is_locked t \<Longrightarrow> reply_section a t = LockedNotice"
  by (simp add: reply_section_def)

text \<open>
  The submit handler on a locked topic, for an authenticated user: a non-moderator never
  reaches \<^verbatim>\<open>createReply\<close>, and a reply that is not blank raises the toast \<^verbatim>\<open>Topic Locked\<close>; a
  moderator is exempt from the lock check, and a reply of theirs that is not blank is posted.
\<close>

lemma handleSubmitReply_locked_topic:
  assumes "topic s = Some t" and "is_locked t" and "isAuthenticated a"
  shows "let cfg = \<lparr>url = ''/forum/topics/'' @ string_of_nat (topic_id t) @ ''/reply'',
                    method = ''post'', body = ObjectData [(''content'', replyContent s)], authorization = None,
                    retry = False\<rparr>
         in (\<not> isModerator a \<longrightarrow>
               fst (handleSubmitReply a s w) = s
             \<and> network (snd (handleSubmitReply a s w)) = network w
             \<and> sent (log (snd (handleSubmitReply a s w))) = sent (log w))
          \<and> (\<not> isModerator a \<and> trim (replyContent s) \<noteq> [] \<longrightarrow>
               handleSubmitReply a s w =
                 (s, emit (Toast ''Topic Locked''
                             ''This topic is locked and no longer accepts replies.''
                             (Some ''destructive'')) w))
          \<and> (isModerator a \<and> trim (replyContent s) \<noteq> [] \<longrightarrow>
               (\<exists>evs. log (snd (handleSubmitReply a s w)) =
                        log w @ Sent (request_interceptor cfg w) # evs)
             \<and> (\<forall>resp. fst (api cfg w) = Resolved resp \<longrightarrow>
                  handleSubmitReply a s w =
                    (s\<lparr>replies := replies s @ [data resp], replyContent := [],
                       topic := Some (t\<lparr>replies_count := replies_count t + 1\<rparr>),
                       submitting := False\<rparr>,
                     emit (Toast ''Success'' ''Reply posted successfully.'' None)
                       (snd (api cfg w))))
             \<and> (\<forall>err. fst (api cfg w) = Rejected err \<longrightarrow>
                  handleSubmitReply a s w =
                    (s\<lparr>submitting := False\<rparr>,
                     emit (Toast ''Error'' ''Failed to post reply. Please try again.''
                             (Some ''destructive''))
                       (snd (api cfg w)))))"
proof -
  let ?cfg = "\<lparr>url = ''/forum/topics/'' @ string_of_nat (topic_id t) @ ''/reply'',
               method = ''post'', body = ObjectData [(''content'', replyContent s)], authorization = None,
               retry = False\<rparr>"
  have user: "\<not> isModerator a \<Longrightarrow>
      fst (handleSubmitReply a s w) = s
      \<and> network (snd (handleSubmitReply a s w)) = network w
      \<and> sent (log (snd (handleSubmitReply a s w))) = sent (log w)"
    using assms by (simp add: handleSubmitReply_def emit_def)
  have locked: "\<not> isModerator a \<Longrightarrow> trim (replyContent s) \<noteq> [] \<Longrightarrow>
      handleSubmitReply a s w =
        (s, emit (Toast ''Topic Locked''
                    ''This topic is locked and no longer accepts replies.''
                    (Some ''destructive'')) w)"
    using assms by (simp add: handleSubmitReply_def)
  have call: "handleSubmitReply a s w =
      (case api ?cfg w of
         (Resolved resp, w1) \<Rightarrow>
           (s\<lparr>replies := replies s @ [data resp], replyContent := [],
              topic := Some (t\<lparr>replies_count := replies_count t + 1\<rparr>),
              submitting := False\<rparr>,
            emit (Toast ''Success'' ''Reply posted successfully.'' None) w1)
       | (Rejected err, w1) \<Rightarrow>
           (s\<lparr>submitting := False\<rparr>,
            emit (Toast ''Error'' ''Failed to post reply. Please try again.''
                    (Some ''destructive'')) w1))"
    if "isModerator a" "trim (replyContent s) \<noteq> []"
    using assms that
    by (simp add: handleSubmitReply_def createReply_def split: prod.splits outcome.splits)
  obtain evs where evs: "log (snd (api ?cfg w)) = log w @ Sent (request_interceptor ?cfg w) # evs"
    using api_log_prefix by blast
  have proceeds: "\<exists>evs. log (snd (handleSubmitReply a s w)) =
                        log w @ Sent (request_interceptor ?cfg w) # evs"
    if "isModerator a" "trim (replyContent s) \<noteq> []"
    using evs unfolding call [OF that]
    by (cases "api ?cfg w"; cases "fst (api ?cfg w)") (auto simp: emit_def)
  have resolved: "handleSubmitReply a s w =
        (s\<lparr>replies := replies s @ [data resp], replyContent := [],
           topic := Some (t\<lparr>replies_count := replies_count t + 1\<rparr>),
           submitting := False\<rparr>,
         emit (Toast ''Success'' ''Reply posted successfully.'' None) (snd (api ?cfg w)))"
    if "isModerator a" "trim (replyContent s) \<noteq> []" "fst (api ?cfg w) = Resolved resp" for resp
    using that(3) unfolding call [OF that(1,2)] by (cases "api ?cfg w") simp
  have rejected: "handleSubmitReply a s w =
        (s\<lparr>submitting := False\<rparr>,
         emit (Toast ''Error'' ''Failed to post reply. Please try again.''
                 (Some ''destructive'')) (snd (api ?cfg w)))"
    if "isModerator a" "trim (replyContent s) \<noteq> []" "fst (api ?cfg w) = Rejected err" for err
    using that(3) unfolding call [OF that(1,2)] by (cases "api ?cfg w") simp
  from user locked proceeds resolved rejected show ?thesis
    unfolding Let_def by blast
qed

lemma isModerator_isAuthenticated: "isModerator a \<Longrightarrow> isAuthenticated a"
  by (auto simp: isModerator_def isAuthenticated_def)

text \<open>
  C6. A locked topic is to take no reply from a non-moderator, while a moderator's reply is to
  go to the server. The page does the first and misses the second: on a locked topic it
  renders the locked notice in place of the reply form for every user, so nothing can be
  submitted, by a moderator either, although the handler behind the form would post a
  moderator's reply.
\<close>

theorem locked_topic_offers_no_reply:
  assumes "topic s = Some t" and "is_locked t" and "\<not> page_loading s"
  shows "TopicDetail_render a s = TopicShown LockedNotice
     \<and> submit_reply_form a s w = None
     \<and> (isModerator a \<and> trim (replyContent s) \<noteq> [] \<longrightarrow>
          (\<exists>evs. log (snd (handleSubmitReply a s w)) =
             log w @ Sent (request_interceptor
                \<lparr>url = ''/forum/topics/'' @ string_of_nat (topic_id t) @ ''/reply'',
                 method = ''post'', body = ObjectData [(''content'', replyContent s)],
                 authorization = None, retry = False\<rparr> w) # evs))"
proof -
  have render: "TopicDetail_render a s = TopicShown LockedNotice"
    using assms by (simp add: TopicDetail_render_def reply_section_def)
  then have form: "submit_reply_form a s w = None"
    by (simp add: submit_reply_form_def)
  have handler: "\<exists>evs. log (snd (handleSubmitReply a s w)) =
             log w @ Sent (request_interceptor
                \<lparr>url = ''/forum/topics/'' @ string_of_nat (topic_id t) @ ''/reply'',
                 method = ''post'', body = ObjectData [(''content'', replyContent s)],
                 authorization = None, retry = False\<rparr> w) # evs"
    if "isModerator a" "trim (replyContent s) \<noteq> []"
    using handleSubmitReply_locked_topic [OF assms(1,2) isModerator_isAuthenticated [OF that(1)], of w] that
    by (simp only: Let_def) blast
  from render form handler show ?thesis by blast
qed

theorem locked_topic_offers_no_reply_witness:
  "isModerator \<lparr>user = Some \<lparr>user_id = 3, username = ''misato'', email = ''m@nerv.jp'', role = RoleModerator, is_active = True\<rparr>, loading = False\<rparr>
   \<and> TopicDetail_render \<lparr>user = Some \<lparr>user_id = 3, username = ''misato'', email = ''m@nerv.jp'', role = RoleModerator, is_active = True\<rparr>, loading = False\<rparr>
       \<lparr>topic = Some \<lparr>topic_id = 7, title = ''Rules'', replies_count = 3, is_pinned = False, is_locked = True\<rparr>, replies = [''first''], page_loading = False, replyContent = ''hi'', submitting = False\<rparr> = TopicShown LockedNotice
   \<and> submit_reply_form \<lparr>user = Some \<lparr>user_id = 3, username = ''misato'', email = ''m@nerv.jp'', role = RoleModerator, is_active = True\<rparr>, loading = False\<rparr>
       \<lparr>topic = Some \<lparr>topic_id = 7, title = ''Rules'', replies_count = 3, is_pinned = False, is_locked = True\<rparr>, replies = [''first''], page_loading = False, replyContent = ''hi'', submitting = False\<rparr>
       \<lparr>storage = [''access_token'' \<mapsto> ''old''], network = [Some \<lparr>status = 403, data_access_token = None, data_refresh_token = None, data_user = None, data_message = None, data = ''locked''\<rparr>], log = []\<rparr> = None
   \<and> (\<exists>evs. log (snd (handleSubmitReply \<lparr>user = Some \<lparr>user_id = 3, username = ''misato'', email = ''m@nerv.jp'', role = RoleModerator, is_active = True\<rparr>, loading = False\<rparr>
       \<lparr>topic = Some \<lparr>topic_id = 7, title = ''Rules'', replies_count = 3, is_pinned = False, is_locked = True\<rparr>, replies = [''first''], page_loading = False, replyContent = ''hi'', submitting = False\<rparr>
       \<lparr>storage = [''access_token'' \<mapsto> ''old''], network = [Some \<lparr>status = 403, data_access_token = None, data_refresh_token = None, data_user = None, data_message = None, data = ''locked''\<rparr>], log = []\<rparr>))
       = Sent \<lparr>url = ''/forum/topics/7/reply'', method = ''post'', body = ObjectData [(''content'', ''hi'')], authorization = Some ''Bearer old'', retry = False\<rparr> # evs)"
  using locked_topic_offers_no_reply [of
      "\<lparr>topic = Some \<lparr>topic_id = 7, title = ''Rules'', replies_count = 3, is_pinned = False, is_locked = True\<rparr>, replies = [''first''], page_loading = False, replyContent = ''hi'', submitting = False\<rparr>"
      "\<lparr>topic_id = 7, title = ''Rules'', replies_count = 3, is_pinned = False, is_locked = True\<rparr>"
      "\<lparr>user = Some \<lparr>user_id = 3, username = ''misato'', email = ''m@nerv.jp'', role = RoleModerator, is_active = True\<rparr>, loading = False\<rparr>"
      "\<lparr>storage = [''access_token'' \<mapsto> ''old''], network = [Some \<lparr>status = 403, data_access_token = None, data_refresh_token = None, data_user = None, data_message = None, data = ''locked''\<rparr>], log = []\<rparr>"]
  by (simp add: isModerator_def trim_def is_white_space_def string_of_nat.simps getItem_def validateStatus_def request_interceptor_def settle_def receive_def bearer_def refresh_config_def BASE_URL_def emit_def)

end
